theory Spec2Isabelle
  imports Complex_Main "HOL-Library.Sublist"
begin

section \<open>JavaScript strings\<close>

text \<open>
  A JavaScript string is a sequence of UTF-16 code units. The model represents the
  strings whose code units are below 256 (ISO-8859-1) as HOL strings, one \<^typ>\<open>char\<close>
  per code unit; \<open>toLowerCase\<close> and \<open>trim\<close> are the standard functions
  restricted to that range.
\<close>

definition toLowerCase_char :: "char \<Rightarrow> char" where
  "toLowerCase_char c =
     (let n = (of_char c :: nat)
      in if (65 \<le> n \<and> n \<le> 90) \<or> (192 \<le> n \<and> n \<le> 214) \<or> (216 \<le> n \<and> n \<le> 222)
         then char_of (n + 32) else c)"

definition toLowerCase :: "string \<Rightarrow> string" where
  "toLowerCase s = map toLowerCase_char s"

text \<open>White space and line terminators that \<open>trim\<close> strips (those below 256).\<close>

definition is_space :: "char \<Rightarrow> bool" where
  "is_space c = ((of_char c :: nat) \<in> {9, 10, 11, 12, 13, 32, 160})"

definition trim :: "string \<Rightarrow> string" where
  "trim s = rev (dropWhile is_space (rev (dropWhile is_space s)))"

text \<open>\<open>a.includes(b)\<close>: \<open>b\<close> occurs in \<open>a\<close> as a contiguous run.\<close>

fun includes_str :: "string \<Rightarrow> string \<Rightarrow> bool" where
  "includes_str [] b = (b = [])"
| "includes_str (x # xs) b = (prefix b (x # xs) \<or> includes_str xs b)"

text \<open>
  \<open>s.split(d)\<close> for a one-character separator: the pieces between the separators,
  empty pieces kept, so the result is never empty.
\<close>

fun split_on :: "char \<Rightarrow> string \<Rightarrow> string list" where
  "split_on d [] = [[]]"
| "split_on d (c # cs) =
     (if c = d then [] # split_on d cs
      else (case split_on d cs of
              [] \<Rightarrow> [[c]]
            | w # ws \<Rightarrow> (c # w) # ws))"

text \<open>\<open>xs.join(sep)\<close>.\<close>

fun join :: "string \<Rightarrow> string list \<Rightarrow> string" where
  "join sep [] = []"
| "join sep [x] = x"
| "join sep (x # y # ys) = x @ sep @ join sep (y # ys)"

text \<open>
  \<open>encodeURIComponent\<close>: letters, digits and \<open>- _ . ! ~ * ' ( )\<close> stay, every
  other code unit becomes the bytes of its UTF-8 form, each as \<open>%\<close> and two
  upper-case hexadecimal digits (two bytes for the code units from 128 to 255).
\<close>

definition hex_digit :: "nat \<Rightarrow> char" where
  "hex_digit n = (if n < 10 then char_of (48 + n) else char_of (55 + n))"

definition percent_byte :: "nat \<Rightarrow> string" where
  "percent_byte b = [CHR ''%'', hex_digit (b div 16), hex_digit (b mod 16)]"

definition is_unreserved :: "char \<Rightarrow> bool" where
  "is_unreserved c =
     (let n = (of_char c :: nat)
      in (65 \<le> n \<and> n \<le> 90) \<or> (97 \<le> n \<and> n \<le> 122) \<or> (48 \<le> n \<and> n \<le> 57)
         \<or> n \<in> {45, 95, 46, 33, 126, 42, 39, 40, 41})"

definition encodeURIComponent :: "string \<Rightarrow> string" where
  "encodeURIComponent s =
     concat (map (\<lambda>c. let n = (of_char c :: nat)
                       in if is_unreserved c then [c]
                          else if n < 128 then percent_byte n
                          else percent_byte (192 + n div 64) @ percent_byte (128 + n mod 64)) s)"

section \<open>Place matching of the trip-init route\<close>

text \<open>A place of the nearby-search response, as the routes read it.\<close>

record nearby_place =
  np_id :: string
  np_name :: string
  np_lat :: string
  np_lon :: string
  np_address :: "string option"
  np_type :: "string option"

text \<open>The table \<open>landmarkMappings\<close>, in the order of its entries.\<close>

definition a_grave :: string where
  "a_grave = [char_of (224 :: nat)]"

definition landmarkMappings :: "(string \<times> string list) list" where
  "landmarkMappings =
    [(''colosseum'', [''colosseo'', ''amphitheatrum flavium'', ''anfiteatro flavio'']),
     (''trevi fountain'', [''fontana di trevi'', ''trevi'', ''fontana'']),
     (''vatican museums'', [''musei vaticani'', ''vatican'', ''vaticani'', ''sistine chapel'']),
     (''sistine chapel'', [''cappella sistina'', ''sistina'', ''musei vaticani'']),
     (''pantheon'', [''pantheon'']),
     (''spanish steps'',
        [''scalinata di trinit'' @ a_grave @ '' dei monti'',
         ''trinit'' @ a_grave @ '' dei monti'', ''spanish'']),
     (''roman forum'', [''foro romano'', ''forum romanum'', ''forum'']),
     (''st peters basilica'', [''basilica di san pietro'', ''san pietro'', ''st peter'']),
     (''castel santangelo'',
        [''castel sant'' @ [CHR 0x27] @ ''angelo'', ''mausoleum of hadrian'', ''castello''])]"

text \<open>Strategy 1: the normalized names are equal.\<close>

definition exact_match :: "string \<Rightarrow> string \<Rightarrow> bool" where
  "exact_match normalizedRequested normalizedNearby = (normalizedNearby = normalizedRequested)"

text \<open>Strategy 2: one normalized name contains the other.\<close>

definition contains_match :: "string \<Rightarrow> string \<Rightarrow> bool" where
  "contains_match normalizedRequested normalizedNearby =
     (includes_str normalizedNearby normalizedRequested \<or> includes_str normalizedRequested normalizedNearby)"

text \<open>
  Strategy 3: the loop over the entries of \<open>landmarkMappings\<close>, which returns true at
  the first entry whose key the request contains and one of whose variants the nearby
  name contains.
\<close>

fun landmark_loop :: "(string \<times> string list) list \<Rightarrow> string \<Rightarrow> string \<Rightarrow> bool" where
  "landmark_loop [] normalizedRequested normalizedNearby = False"
| "landmark_loop ((english, variants) # rest) normalizedRequested normalizedNearby =
     (if includes_str normalizedRequested english
         \<and> list_ex (\<lambda>variant. includes_str normalizedNearby variant) variants
      then True
      else landmark_loop rest normalizedRequested normalizedNearby)"

definition landmark_match :: "string \<Rightarrow> string \<Rightarrow> bool" where
  "landmark_match normalizedRequested normalizedNearby =
     landmark_loop landmarkMappings normalizedRequested normalizedNearby"

text \<open>
  Strategy 4: the words longer than two characters; a requested word matches when some
  nearby word contains it or is contained in it. \<open>Math.ceil(n * 0.5)\<close> on an array
  length \<open>n\<close> is exact in double precision and equals \<open>(n + 1) div 2\<close>.
\<close>

definition significant_words :: "string \<Rightarrow> string list" where
  "significant_words s = filter (\<lambda>word. length word > 2) (split_on CHR '' '' s)"

definition matchingWords :: "string list \<Rightarrow> string list \<Rightarrow> string list" where
  "matchingWords requestedWords nearbyWords =
     filter (\<lambda>reqWord. list_ex (\<lambda>nearbyWord.
               includes_str nearbyWord reqWord \<or> includes_str reqWord nearbyWord) nearbyWords)
            requestedWords"

definition ceil_half :: "nat \<Rightarrow> nat" where
  "ceil_half n = (n + 1) div 2"

definition word_match :: "string \<Rightarrow> string \<Rightarrow> bool" where
  "word_match normalizedRequested normalizedNearby =
     (let requestedWords = significant_words normalizedRequested;
          nearbyWords = significant_words normalizedNearby
      in length (matchingWords requestedWords nearbyWords) \<ge> ceil_half (length requestedWords))"

text \<open>
  \<open>s.toLowerCase().trim()\<close>, the normalization of both names; then the predicate
  handed to \<open>nearbyPlaces.find\<close>: the four tests in their order.
\<close>

definition lower_trim :: "string \<Rightarrow> string" where
  "lower_trim s = trim (toLowerCase s)"

definition place_matches :: "string \<Rightarrow> nearby_place \<Rightarrow> bool" where
  "place_matches normalizedRequested nearby =
     (let normalizedNearby = lower_trim (np_name nearby)
      in if exact_match normalizedRequested normalizedNearby then True
         else if contains_match normalizedRequested normalizedNearby then True
         else if landmark_match normalizedRequested normalizedNearby then True
         else word_match normalizedRequested normalizedNearby)"

text \<open>\<open>nearbyPlaces.find(...)\<close> for one requested place.\<close>

definition find_match :: "nearby_place list \<Rightarrow> string \<Rightarrow> nearby_place option" where
  "find_match nearbyPlaces requestedPlace =
     List.find (place_matches (lower_trim requestedPlace)) nearbyPlaces"

section \<open>Request values, upstream services and caches\<close>

text \<open>
  A value of a parsed JSON body. A number that JSON can carry is a finite double, hence a
  rational; the comparisons with 0 and 30 and \<open>Math.floor\<close> are exact on it. Objects
  are only tested for their type here, so their fields are not kept.
\<close>

datatype jsval =
    JUndefined
  | JNull
  | JBool bool
  | JNum rat
  | JStr string
  | JArr "jsval list"
  | JObj

text \<open>\<open>!v\<close> is \<open>\<not> truthy v\<close>.\<close>

fun truthy :: "jsval \<Rightarrow> bool" where
  "truthy JUndefined = False"
| "truthy JNull = False"
| "truthy (JBool b) = b"
| "truthy (JNum n) = (n \<noteq> 0)"
| "truthy (JStr s) = (s \<noteq> [])"
| "truthy (JArr xs) = True"
| "truthy JObj = True"

text \<open>A thrown \<open>Error\<close>: its \<open>name\<close> and its \<open>message\<close>.\<close>

record js_error =
  err_name :: string
  err_message :: string

text \<open>
  What a \<open>fetch\<close> of an upstream route gives: it throws (or the body is not JSON), it
  answers with a status that is not ok (with the \<open>error\<close> field of the body, when there
  is one), or it answers ok with the list the route reads from the body (\<open>[]\<close> when the
  field is absent).
\<close>

datatype 'a fetched = Throws js_error | NotOk "string option" | Ok 'a

text \<open>
  A prediction of the autocomplete route. The route writes \<open>lat\<close> and \<open>lon\<close> as
  \<open>place.latitude?.toString()\<close> and \<open>place.longitude?.toString()\<close>, so either is
  absent when the upstream place has none. Where such a value is put into a template
  string or a search parameter, an absent one reads \<open>undefined\<close>.
\<close>

record prediction =
  pr_place_id :: string
  pr_description :: string
  pr_lat :: "string option"
  pr_lon :: "string option"
  pr_type :: "string option"

definition js_string :: "string option \<Rightarrow> string" where
  "js_string v = (case v of None \<Rightarrow> ''undefined'' | Some s \<Rightarrow> s)"

text \<open>
  The two upstream routes: autocomplete by query text, nearby search by latitude,
  longitude and radius. The log of a request lists the fetches it made.
\<close>

record env =
  autocomplete :: "string \<Rightarrow> prediction list fetched"
  nearby :: "string \<Rightarrow> string \<Rightarrow> string \<Rightarrow> nearby_place list fetched"

datatype upstream_call =
    AutocompleteCall string
  | NearbyCall string string string
  | GeneratorCall

text \<open>
  A cache is a \<open>Map\<close> from key to \<open>{data, timestamp}\<close>; time is \<open>Date.now()\<close>, in
  milliseconds. Storing is \<open>cache.set(key, {data, timestamp: Date.now()})\<close>.
\<close>

type_synonym 'a cache = "string \<rightharpoonup> ('a \<times> int)"

definition cache_set :: "'a cache \<Rightarrow> string \<Rightarrow> 'a \<Rightarrow> int \<Rightarrow> 'a cache" where
  "cache_set c key d now = c(key \<mapsto> (d, now))"

text \<open>
  The read of the trip-init route (\<open>CACHE_DURATION\<close> is ten minutes): a stale entry is
  skipped and left in the map.
\<close>

definition CACHE_DURATION_init :: int where
  "CACHE_DURATION_init = 10 * 60 * 1000"

definition validation_cache_read :: "'a cache \<Rightarrow> string \<Rightarrow> int \<Rightarrow> 'a option" where
  "validation_cache_read c key now =
     (case c key of
        None \<Rightarrow> None
      | Some (d, timestamp) \<Rightarrow>
          if now - timestamp < CACHE_DURATION_init then Some d else None)"

text \<open>
  The read of the trip-resolve route (\<open>CACHE_DURATION\<close> is thirty minutes): a stale
  entry is deleted.
\<close>

definition CACHE_DURATION_resolve :: int where
  "CACHE_DURATION_resolve = 30 * 60 * 1000"

definition coordinate_cache_read :: "'a cache \<Rightarrow> string \<Rightarrow> int \<Rightarrow> 'a option \<times> 'a cache" where
  "coordinate_cache_read c key now =
     (case c key of
        None \<Rightarrow> (None, c)
      | Some (d, timestamp) \<Rightarrow>
          if now - timestamp < CACHE_DURATION_resolve then (Some d, c)
          else (None, c(key := None)))"

section \<open>The trip-init route\<close>

text \<open>
  The body of the request: \<open>request.json()\<close> fails, or gives \<open>null\<close> (whose
  destructuring throws a \<open>TypeError\<close>), or gives a value with the four fields
  \<open>destination\<close>, \<open>places\<close>, \<open>days\<close>, \<open>budget\<close>, each possibly undefined.
\<close>

datatype init_body =
    InvalidJson
  | NullBody
  | Fields jsval jsval jsval jsval

record validated_destination =
  vd_name :: string
  vd_place_id :: string
  vd_lat :: "string option"
  vd_lon :: "string option"

record validated_place =
  vp_name :: string
  vp_id :: string
  vp_lat :: string
  vp_lon :: string

record validation_info =
  total_places_requested :: nat
  valid_places_found :: nat
  invalid_places :: "string list option"
  warnings :: "string list option"

record init_success =
  is_destination :: validated_destination
  is_places :: "validated_place list"
  is_days :: int
  is_budget :: string
  is_validation_info :: validation_info

text \<open>A response: an error with its status, \<open>error\<close> and \<open>details\<close>, or the 200 body.\<close>

datatype init_response =
    ErrorResponse nat string "string list option"
  | InitOk init_success

definition VALID_BUDGETS :: "string list" where
  "VALID_BUDGETS = [''low'', ''moderate'', ''luxury'']"

definition dquote :: string where
  "dquote = [CHR 0x22]"

fun nat_to_string :: "nat \<Rightarrow> string" where
  "nat_to_string n =
     (if n < 10 then [char_of (48 + n)]
      else nat_to_string (n div 10) @ [char_of (48 + n mod 10)])"

declare nat_to_string.simps [simp del]

text \<open>The validation of the four fields: the list \<open>errors\<close>.\<close>

definition validate_init :: "jsval \<Rightarrow> jsval \<Rightarrow> jsval \<Rightarrow> jsval \<Rightarrow> string list" where
  "validate_init destination places days budget =
     (if \<not> truthy destination
         \<or> (case destination of JStr d \<Rightarrow> length (trim d) = 0 | _ \<Rightarrow> True)
      then [''Destination is required and must be a non-empty string''] else [])
     @ (case places of
          JArr ps \<Rightarrow>
            if length ps = 0 then [''Places must be a non-empty array'']
            else if list_ex (\<lambda>place. case place of JStr p \<Rightarrow> length (trim p) = 0 | _ \<Rightarrow> True) ps
            then [''All places must be non-empty strings'']
            else []
        | _ \<Rightarrow> [''Places must be a non-empty array''])
     @ (if \<not> truthy days
           \<or> (case days of JNum n \<Rightarrow> n \<le> 0 \<or> n > 30 | _ \<Rightarrow> True)
        then [''Days must be a positive number between 1 and 30''] else [])
     @ (if \<not> truthy budget
           \<or> \<not> (case budget of JStr b \<Rightarrow> b \<in> set VALID_BUDGETS | _ \<Rightarrow> False)
        then [''Budget must be one of: '' @ join '', '' VALID_BUDGETS] else [])"

text \<open>The outer \<open>catch\<close>: the 500 response for a thrown error.\<close>

definition init_caught :: "js_error \<Rightarrow> init_response" where
  "init_caught e =
     ErrorResponse 500
       (if err_name e = ''AbortError'' then ''Validation timeout - please try again''
        else if includes_str (err_message e) ''fetch'' then ''Failed to connect to location services''
        else ''Internal server error during trip validation'')
       None"

text \<open>
  The one \<open>validationCache\<close> holds destination entries under keys that start with
  \<open>dest_\<close> and place-list entries under keys that start with \<open>places_\<close>; no key is of
  both kinds, so the map is kept as its two parts.
\<close>

record validation_cache =
  dest_entries :: "prediction cache"
  places_entries :: "nearby_place list cache"

definition error_or :: "string option \<Rightarrow> string \<Rightarrow> string" where
  "error_or e dflt = (case e of None \<Rightarrow> dflt | Some m \<Rightarrow> if m = [] then dflt else m)"

text \<open>Step 1: the destination, from the cache or from autocomplete.\<close>

definition lookup_destination ::
  "env \<Rightarrow> int \<Rightarrow> validation_cache \<Rightarrow> string
     \<Rightarrow> (init_response + prediction) \<times> validation_cache \<times> upstream_call list" where
  "lookup_destination e now cache destination =
     (let destinationCacheKey = ''dest_'' @ trim (toLowerCase destination)
      in case validation_cache_read (dest_entries cache) destinationCacheKey now of
           Some destinationResult \<Rightarrow> (Inr destinationResult, cache, [])
         | None \<Rightarrow>
            (case autocomplete e destination of
               Throws err \<Rightarrow> (Inl (init_caught err), cache, [AutocompleteCall destination])
             | NotOk errorData \<Rightarrow>
                 (Inl (ErrorResponse 500 ''Failed to validate destination''
                         (Some [error_or errorData ''Autocomplete service unavailable''])),
                  cache, [AutocompleteCall destination])
             | Ok predictions \<Rightarrow>
                 (case predictions of
                    [] \<Rightarrow>
                      (Inl (ErrorResponse 404
                              (''Destination '' @ dquote @ destination @ dquote @ '' not found'')
                              (Some [''Please try a more specific location name''])),
                       cache, [AutocompleteCall destination])
                  | destinationResult # _ \<Rightarrow>
                      (Inr destinationResult,
                       cache\<lparr>dest_entries :=
                               cache_set (dest_entries cache) destinationCacheKey destinationResult now\<rparr>,
                       [AutocompleteCall destination]))))"

text \<open>Step 2: the nearby places, from the cache or from the nearby search.\<close>

definition lookup_nearby ::
  "env \<Rightarrow> int \<Rightarrow> validation_cache \<Rightarrow> prediction
     \<Rightarrow> (init_response + nearby_place list) \<times> validation_cache \<times> upstream_call list" where
  "lookup_nearby e now cache destinationResult =
     (let placesCacheKey = ''places_'' @ js_string (pr_lat destinationResult)
                             @ ''_'' @ js_string (pr_lon destinationResult);
          call = NearbyCall (js_string (pr_lat destinationResult))
                   (js_string (pr_lon destinationResult)) ''10000''
      in case validation_cache_read (places_entries cache) placesCacheKey now of
           Some nearbyPlaces \<Rightarrow> (Inr nearbyPlaces, cache, [])
         | None \<Rightarrow>
            (case nearby e (js_string (pr_lat destinationResult))
                    (js_string (pr_lon destinationResult)) ''10000'' of
               Throws err \<Rightarrow> (Inl (init_caught err), cache, [call])
             | NotOk errorData \<Rightarrow>
                 (Inl (ErrorResponse 500 ''Failed to validate places''
                         (Some [error_or errorData ''Nearby places service unavailable''])),
                  cache, [call])
             | Ok nearbyPlaces \<Rightarrow>
                 (Inr nearbyPlaces,
                  cache\<lparr>places_entries :=
                          cache_set (places_entries cache) placesCacheKey nearbyPlaces now\<rparr>,
                  [call])))"

text \<open>
  Step 3: the loop over the requested places, which fills \<open>validatedPlaces\<close> and
  \<open>invalidPlaces\<close> in the order of the request.
\<close>

fun match_places ::
  "nearby_place list \<Rightarrow> string list \<Rightarrow> validated_place list \<times> string list" where
  "match_places nearbyPlaces [] = ([], [])"
| "match_places nearbyPlaces (requestedPlace # rest) =
     (let (validatedPlaces, invalidPlaces) = match_places nearbyPlaces rest
      in case find_match nearbyPlaces requestedPlace of
           Some matchedPlace \<Rightarrow>
             (\<lparr>vp_name = np_name matchedPlace, vp_id = np_id matchedPlace,
               vp_lat = np_lat matchedPlace, vp_lon = np_lon matchedPlace\<rparr> # validatedPlaces,
              invalidPlaces)
         | None \<Rightarrow> (validatedPlaces, requestedPlace # invalidPlaces))"

text \<open>Step 3, its end, and step 4: the 404 when no place was validated, else the 200 body.\<close>

definition match_and_respond ::
  "string \<Rightarrow> prediction \<Rightarrow> nearby_place list \<Rightarrow> string list \<Rightarrow> rat \<Rightarrow> string \<Rightarrow> init_response" where
  "match_and_respond destination destinationResult nearbyPlaces places days budget =
     (let (validatedPlaces, invalidPlaces) = match_places nearbyPlaces places
      in if length validatedPlaces = 0
         then ErrorResponse 404 ''None of the requested places were found near the destination''
                (Some (map (\<lambda>place. dquote @ place @ dquote @ '' not found near '' @ destination)
                           invalidPlaces))
         else InitOk
           \<lparr>is_destination =
              \<lparr>vd_name = trim (hd (split_on CHR '','' (pr_description destinationResult))),
               vd_place_id = pr_place_id destinationResult,
               vd_lat = pr_lat destinationResult,
               vd_lon = pr_lon destinationResult\<rparr>,
            is_places = validatedPlaces,
            is_days = \<lfloor>days\<rfloor>,
            is_budget = budget,
            is_validation_info =
              \<lparr>total_places_requested = length places,
               valid_places_found = length validatedPlaces,
               invalid_places = (if length invalidPlaces > 0 then Some invalidPlaces else None),
               warnings =
                 (if length invalidPlaces > 0
                  then Some [nat_to_string (length invalidPlaces)
                             @ '' place(s) were not found and will be excluded from your trip'']
                  else None)\<rparr>\<rparr>)"

text \<open>
  The handler. A body that passes the validation has a string, an array of strings, a
  number and a string in its four fields; the last case is for the other bodies, which
  the validation has turned away already. The reads of the clock in one request are
  the one value \<open>now\<close>.
\<close>

definition str_of :: "jsval \<Rightarrow> string" where
  "str_of v = (case v of JStr s \<Rightarrow> s | _ \<Rightarrow> [])"

definition POST_init ::
  "env \<Rightarrow> int \<Rightarrow> validation_cache \<Rightarrow> init_body
     \<Rightarrow> init_response \<times> validation_cache \<times> upstream_call list" where
  "POST_init e now cache body =
     (case body of
        InvalidJson \<Rightarrow> (ErrorResponse 400 ''Invalid JSON in request body'' None, cache, [])
      | NullBody \<Rightarrow>
          (ErrorResponse 500 ''Internal server error during trip validation'' None, cache, [])
      | Fields destination places days budget \<Rightarrow>
          (let errors = validate_init destination places days budget
           in if length errors > 0
              then (ErrorResponse 400 ''Validation failed'' (Some errors), cache, [])
              else
                (case (destination, places, days, budget) of
                   (JStr d, JArr ps, JNum n, JStr b) \<Rightarrow>
                     (case lookup_destination e now cache d of
                        (Inl response, cache1, calls1) \<Rightarrow> (response, cache1, calls1)
                      | (Inr destinationResult, cache1, calls1) \<Rightarrow>
                          (case lookup_nearby e now cache1 destinationResult of
                             (Inl response, cache2, calls2) \<Rightarrow> (response, cache2, calls1 @ calls2)
                           | (Inr nearbyPlaces, cache2, calls2) \<Rightarrow>
                               (match_and_respond d destinationResult nearbyPlaces
                                  (map str_of ps) n b,
                                cache2, calls1 @ calls2)))
                 | _ \<Rightarrow> (ErrorResponse 400 ''Validation failed'' (Some errors), cache, []))))"

section \<open>The trip-resolve route\<close>

text \<open>The result of \<open>resolveCoordinates\<close> when it is not \<open>null\<close>.\<close>

record coordinates =
  c_lat :: "string option"
  c_lon :: "string option"
  c_place_id :: "string option"
  c_address :: "string option"
  c_type :: "string option"

definition coordinates_of_place :: "nearby_place \<Rightarrow> coordinates" where
  "coordinates_of_place m =
     \<lparr>c_lat = Some (np_lat m), c_lon = Some (np_lon m), c_place_id = Some (np_id m),
      c_address = np_address m, c_type = np_type m\<rparr>"

definition coordinates_of_prediction :: "prediction \<Rightarrow> coordinates" where
  "coordinates_of_prediction bestMatch =
     \<lparr>c_lat = pr_lat bestMatch, c_lon = pr_lon bestMatch,
      c_place_id = Some (pr_place_id bestMatch), c_address = None, c_type = pr_type bestMatch\<rparr>"

text \<open>
  The fallback of \<open>resolveCoordinates\<close>: the first prediction of autocomplete for the
  place name followed by the destination's coordinates. Inside the \<open>try\<close>, a throw
  gives \<open>null\<close>.
\<close>

definition autocomplete_fallback ::
  "env \<Rightarrow> int \<Rightarrow> coordinates cache \<Rightarrow> string \<Rightarrow> string \<Rightarrow> string option \<Rightarrow> string option
     \<Rightarrow> coordinates option \<times> coordinates cache" where
  "autocomplete_fallback e now cache cacheKey placeName destinationLat destinationLon =
     (case autocomplete e
             (placeName @ '' '' @ js_string destinationLat @ '' '' @ js_string destinationLon) of
        Throws err \<Rightarrow> (None, cache)
      | NotOk errorData \<Rightarrow> (None, cache)
      | Ok predictions \<Rightarrow>
          (case predictions of
             [] \<Rightarrow> (None, cache)
           | bestMatch # _ \<Rightarrow>
               (let result = coordinates_of_prediction bestMatch
                in (Some result, cache_set cache cacheKey result now))))"

definition exactMatch :: "nearby_place list \<Rightarrow> string \<Rightarrow> nearby_place option" where
  "exactMatch nearbyPlaces normalizedSearchName =
     List.find (\<lambda>place. trim (toLowerCase (np_name place)) = normalizedSearchName) nearbyPlaces"

definition fuzzyMatch :: "nearby_place list \<Rightarrow> string \<Rightarrow> nearby_place option" where
  "fuzzyMatch nearbyPlaces normalizedSearchName =
     List.find (\<lambda>place. let placeNameLower = toLowerCase (np_name place)
                        in includes_str placeNameLower normalizedSearchName
                           \<or> includes_str normalizedSearchName placeNameLower)
               nearbyPlaces"

text \<open>
  \<open>resolveCoordinates\<close> in its two parts. The first part runs when the function is
  called: the cache key, and the read of the cache, which ends the call when it finds a
  fresh entry. The second part is the \<open>try\<close> block, which starts with the first
  \<open>await\<close> of the function: the nearby search, the exact and the fuzzy match, the
  fallback. It reads nothing of the cache and stores what it finds.
\<close>

definition cacheKey_of :: "string \<Rightarrow> string option \<Rightarrow> string option \<Rightarrow> string" where
  "cacheKey_of placeName destinationLat destinationLon =
     toLowerCase placeName @ ''_'' @ js_string destinationLat @ ''_'' @ js_string destinationLon"

definition resolve_uncached ::
  "env \<Rightarrow> int \<Rightarrow> coordinates cache \<Rightarrow> string \<Rightarrow> string option \<Rightarrow> string option
     \<Rightarrow> coordinates option \<times> coordinates cache" where
  "resolve_uncached e now cache placeName destinationLat destinationLon =
     (let cacheKey = cacheKey_of placeName destinationLat destinationLon
      in case nearby e (js_string destinationLat) (js_string destinationLon) ''20000'' of
           Throws err \<Rightarrow> (None, cache)
         | NotOk errorData \<Rightarrow>
             autocomplete_fallback e now cache cacheKey placeName destinationLat destinationLon
         | Ok nearbyPlaces \<Rightarrow>
             (let normalizedSearchName = trim (toLowerCase placeName)
              in case exactMatch nearbyPlaces normalizedSearchName of
                   Some m \<Rightarrow>
                     (Some (coordinates_of_place m),
                      cache_set cache cacheKey (coordinates_of_place m) now)
                 | None \<Rightarrow>
                    (case fuzzyMatch nearbyPlaces normalizedSearchName of
                       Some m \<Rightarrow>
                         (Some (coordinates_of_place m),
                          cache_set cache cacheKey (coordinates_of_place m) now)
                     | None \<Rightarrow>
                         autocomplete_fallback e now cache cacheKey placeName
                           destinationLat destinationLon)))"

text \<open>One call of \<open>resolveCoordinates\<close> that runs to its end with nothing in between.\<close>

definition resolveCoordinates ::
  "env \<Rightarrow> int \<Rightarrow> coordinates cache \<Rightarrow> string \<Rightarrow> string option \<Rightarrow> string option
     \<Rightarrow> coordinates option \<times> coordinates cache" where
  "resolveCoordinates e now cache placeName destinationLat destinationLon =
     (case coordinate_cache_read cache (cacheKey_of placeName destinationLat destinationLon) now of
        (Some d, cache1) \<Rightarrow> (Some d, cache1)
      | (None, cache1) \<Rightarrow> resolve_uncached e now cache1 placeName destinationLat destinationLon)"

text \<open>
  The itinerary of the request, as \<open>TripItinerary\<close> declares it. The handler tests the
  destination for truth (an absent one is the empty string here) and the itinerary for
  being an array (\<open>None\<close> when it is not). The body may also fail to parse, or be
  \<open>null\<close>, whose \<open>destination\<close> cannot be read.
\<close>

datatype time_slot = Morning | Afternoon | Evening

record itinerary_place =
  ip_name :: string
  ip_time :: time_slot

record itinerary_day =
  id_day :: rat
  id_places :: "itinerary_place list"

record trip_itinerary =
  ti_destination :: string
  ti_days :: rat
  ti_budget :: string
  ti_itinerary :: "itinerary_day list option"

datatype resolve_body = InvalidJsonBody | NullItinerary | Itinerary trip_itinerary

record enriched_place =
  ep_name :: string
  ep_time :: time_slot
  ep_lat :: "string option"
  ep_lon :: "string option"
  ep_place_id :: "string option"
  ep_address :: "string option"
  ep_type :: "string option"

record enriched_day =
  ed_day :: rat
  ed_places :: "enriched_place list"

record resolution_info =
  total_places :: nat
  resolved_places :: nat
  unresolved_places :: "string list"
  resolution_time :: int

record enriched_itinerary =
  ei_destination :: string
  ei_days :: rat
  ei_budget :: string
  ei_itinerary :: "enriched_day list"
  ei_resolution_info :: resolution_info

datatype resolve_response =
    ResolveError nat string "string option"
  | ResolveOk enriched_itinerary

text \<open>The outer \<open>catch\<close> of the handler.\<close>

definition resolve_caught :: "js_error \<Rightarrow> resolve_response" where
  "resolve_caught e =
     (if err_name e = ''AbortError''
      then ResolveError 500 ''Coordinate resolution timeout''
             (Some ''Please try again with fewer places'')
      else if includes_str (err_message e) ''fetch''
      then ResolveError 500 ''Failed to connect to location services''
             (Some ''Please check your internet connection and try again'')
      else ResolveError 500 (err_message e) None)"

text \<open>
  What the loop over the days changes: the cache, \<open>resolvedCount\<close> and
  \<open>unresolvedPlaces\<close>.
\<close>

record resolve_state =
  rs_cache :: "coordinates cache"
  resolvedCount :: nat
  unresolvedPlaces :: "string list"

text \<open>
  The lookups of one day. \<open>day.places.map(async ...)\<close> calls the function for every
  place in turn, and each call runs up to its first \<open>await\<close>: so the cache is read
  for every place of the day, in their order, before any lookup of the day stores a
  result. \<open>start_lookups\<close> is that pass; it pairs every place with what the cache
  gave for it.
\<close>

fun start_lookups ::
  "int \<Rightarrow> string option \<Rightarrow> string option \<Rightarrow> itinerary_place list \<Rightarrow> coordinates cache
     \<Rightarrow> (itinerary_place \<times> coordinates option) list \<times> coordinates cache" where
  "start_lookups now destinationLat destinationLon [] cache = ([], cache)"
| "start_lookups now destinationLat destinationLon (place # rest) cache =
     (let (cached, cache1) =
            coordinate_cache_read cache
              (cacheKey_of (ip_name place) destinationLat destinationLon) now;
          (pending, cache2) = start_lookups now destinationLat destinationLon rest cache1
      in ((place, cached) # pending, cache2))"

text \<open>
  The rest of one lookup: the \<open>try\<close> block when the cache gave nothing, then the
  entry of the output, with the destination's coordinates when the result is \<open>null\<close>.
\<close>

definition finish_lookup ::
  "env \<Rightarrow> int \<Rightarrow> string option \<Rightarrow> string option \<Rightarrow> itinerary_place \<times> coordinates option
     \<Rightarrow> resolve_state
     \<Rightarrow> enriched_place \<times> resolve_state" where
  "finish_lookup e now destinationLat destinationLon lookup st =
     (let (place, cached) = lookup;
          (coordinates, cache1) =
            (case cached of
               Some d \<Rightarrow> (Some d, rs_cache st)
             | None \<Rightarrow>
                 resolve_uncached e now (rs_cache st) (ip_name place) destinationLat destinationLon)
      in case coordinates of
           Some c \<Rightarrow>
             (\<lparr>ep_name = ip_name place, ep_time = ip_time place,
               ep_lat = c_lat c, ep_lon = c_lon c,
               ep_place_id = c_place_id c, ep_address = c_address c, ep_type = c_type c\<rparr>,
              st\<lparr>rs_cache := cache1, resolvedCount := resolvedCount st + 1\<rparr>)
         | None \<Rightarrow>
             (\<lparr>ep_name = ip_name place, ep_time = ip_time place,
               ep_lat = destinationLat, ep_lon = destinationLon,
               ep_place_id = None, ep_address = None, ep_type = None\<rparr>,
              st\<lparr>rs_cache := cache1,
                 unresolvedPlaces := unresolvedPlaces st @ [ip_name place]\<rparr>))"

text \<open>
  The lookups of the day end in some order, which the code leaves open;
  \<open>Promise.all\<close> gives their results in the order of the places. The model ends them
  in the order of the places, so \<open>unresolvedPlaces\<close> is in the order of the itinerary.
\<close>

fun finish_lookups ::
  "env \<Rightarrow> int \<Rightarrow> string option \<Rightarrow> string option \<Rightarrow> (itinerary_place \<times> coordinates option) list
     \<Rightarrow> resolve_state \<Rightarrow> enriched_place list \<times> resolve_state" where
  "finish_lookups e now destinationLat destinationLon [] st = ([], st)"
| "finish_lookups e now destinationLat destinationLon (lookup # rest) st =
     (let (enriched, st1) = finish_lookup e now destinationLat destinationLon lookup st;
          (resolvedPlaces, st2) = finish_lookups e now destinationLat destinationLon rest st1
      in (enriched # resolvedPlaces, st2))"

definition resolve_places ::
  "env \<Rightarrow> int \<Rightarrow> string option \<Rightarrow> string option \<Rightarrow> itinerary_place list \<Rightarrow> resolve_state
     \<Rightarrow> enriched_place list \<times> resolve_state" where
  "resolve_places e now destinationLat destinationLon places st =
     (let (pending, cache1) = start_lookups now destinationLat destinationLon places (rs_cache st)
      in finish_lookups e now destinationLat destinationLon pending (st\<lparr>rs_cache := cache1\<rparr>))"

text \<open>The loop over the days, each day awaited before the next one starts.\<close>

fun resolve_days ::
  "env \<Rightarrow> int \<Rightarrow> string option \<Rightarrow> string option \<Rightarrow> itinerary_day list \<Rightarrow> resolve_state
     \<Rightarrow> enriched_day list \<times> resolve_state" where
  "resolve_days e now destinationLat destinationLon [] st = ([], st)"
| "resolve_days e now destinationLat destinationLon (day # rest) st =
     (let (resolvedPlaces, st1) =
            resolve_places e now destinationLat destinationLon (id_places day) st;
          (enrichedItinerary, st2) = resolve_days e now destinationLat destinationLon rest st1
      in (\<lparr>ed_day = id_day day, ed_places = resolvedPlaces\<rparr> # enrichedItinerary, st2))"

text \<open>\<open>totalPlaces\<close>: the \<open>reduce\<close> over the days.\<close>

definition totalPlaces :: "itinerary_day list \<Rightarrow> nat" where
  "totalPlaces days = foldl (\<lambda>count day. count + length (id_places day)) 0 days"

text \<open>
  The destination's coordinates: those of the first prediction of autocomplete, or
  \<open>'0'\<close> and \<open>'0'\<close> when the answer is not ok or has no prediction.
\<close>

definition destination_coordinates ::
  "prediction list fetched \<Rightarrow> string option \<times> string option" where
  "destination_coordinates destinationResult =
     (case destinationResult of
        Ok (p # _) \<Rightarrow> (pr_lat p, pr_lon p)
      | _ \<Rightarrow> (Some ''0'', Some ''0''))"

text \<open>
  The fetch of the destination is given the URL
  \<open>/api/places/autocomplete?q=...\<close> as it stands, without a base. The handler runs on
  the server, where \<open>fetch\<close> has nothing to resolve such a URL against: it throws a
  \<open>TypeError\<close> before any request is made, as for every URL it cannot parse. The
  lookups of \<open>resolveCoordinates\<close> and of the trip-init route build their URLs with
  \<open>new URL(path, request.url)\<close> and reach the upstream routes. The runtime words
  the messages of its \<open>TypeError\<close>s.
\<close>

record runtime =
  invalid_url_message :: "string \<Rightarrow> string"
  null_body_message :: string

definition fetch_without_base :: "runtime \<Rightarrow> string \<Rightarrow> prediction list fetched" where
  "fetch_without_base rt url =
     Throws \<lparr>err_name = ''TypeError'', err_message = invalid_url_message rt url\<rparr>"

text \<open>
  The handler. The clock is read at the start (\<open>startTime\<close>); the later reads are the
  one value \<open>now\<close>. A throw of the destination's fetch goes to the outer \<open>catch\<close>,
  as does the read of \<open>destination\<close> from a \<open>null\<close> body.
\<close>

definition POST_resolve ::
  "runtime \<Rightarrow> env \<Rightarrow> int \<Rightarrow> int \<Rightarrow> coordinates cache \<Rightarrow> resolve_body
     \<Rightarrow> resolve_response \<times> coordinates cache" where
  "POST_resolve rt e startTime now cache body =
     (case body of
        InvalidJsonBody \<Rightarrow> (ResolveError 400 ''Invalid JSON in request body'' None, cache)
      | NullItinerary \<Rightarrow>
          (resolve_caught \<lparr>err_name = ''TypeError'', err_message = null_body_message rt\<rparr>, cache)
      | Itinerary itineraryData \<Rightarrow>
         (case ti_itinerary itineraryData of
            None \<Rightarrow>
              (ResolveError 400 ''Invalid itinerary structure''
                 (Some ''Expected: { destination, days, budget, itinerary: [...] }''), cache)
          | Some days \<Rightarrow>
             if ti_destination itineraryData = []
             then (ResolveError 400 ''Invalid itinerary structure''
                     (Some ''Expected: { destination, days, budget, itinerary: [...] }''), cache)
             else
              (case fetch_without_base rt
                      (''/api/places/autocomplete?q=''
                         @ encodeURIComponent (ti_destination itineraryData)) of
                 Throws err \<Rightarrow> (resolve_caught err, cache)
               | destinationResult \<Rightarrow>
                  (let (destinationLat, destinationLon) = destination_coordinates destinationResult;
                       (enrichedItinerary, st) =
                         resolve_days e now destinationLat destinationLon days
                           \<lparr>rs_cache = cache, resolvedCount = 0, unresolvedPlaces = []\<rparr>
                   in (ResolveOk
                         \<lparr>ei_destination = ti_destination itineraryData,
                          ei_days = ti_days itineraryData,
                          ei_budget = ti_budget itineraryData,
                          ei_itinerary = enrichedItinerary,
                          ei_resolution_info =
                            \<lparr>total_places = totalPlaces days,
                             resolved_places = resolvedCount st,
                             unresolved_places = unresolvedPlaces st,
                             resolution_time = now - startTime\<rparr>\<rparr>,
                       rs_cache st)))))"

section \<open>The trip-create route\<close>





text \<open>The itinerary that the generator's answer parses to.\<close>

record llm_place =
  lp_name :: string
  lp_lat :: "string option"
  lp_lon :: "string option"
  lp_time :: time_slot
  lp_type :: "string option"

record llm_day =
  ld_day :: rat
  ld_places :: "llm_place list"

record llm_itinerary =
  li_destination :: string
  li_days :: rat
  li_budget :: string
  li_itinerary :: "llm_day list option"














section \<open>Example inputs\<close>

text \<open>
  The scenario used to exercise the theorems: the destination Rome; a nearby search that
  returns \<open>Colosseo\<close> and \<open>Fontana di Trevi\<close>; an autocomplete that knows Rome only;
  a runtime that words its \<open>TypeError\<close>s as Node.js does.
\<close>

abbreviation example_env :: env where
  "example_env \<equiv>
     \<lparr>autocomplete = (\<lambda>q. if q = ''Rome''
          then Ok [\<lparr>pr_place_id = ''r1'', pr_description = ''Rome, Lazio, Italy'',
                    pr_lat = Some ''41.9'', pr_lon = Some ''12.5'', pr_type = Some ''place''\<rparr>]
          else Ok []),
      nearby = (\<lambda>lat lon radius.
          Ok [\<lparr>np_id = ''3'', np_name = ''Colosseo'', np_lat = ''41.89'', np_lon = ''12.49'',
                np_address = None, np_type = Some ''attraction''\<rparr>,
              \<lparr>np_id = ''4'', np_name = ''Fontana di Trevi'', np_lat = ''41.90'', np_lon = ''12.48'',
                np_address = None, np_type = Some ''attraction''\<rparr>])\<rparr>"

abbreviation example_runtime :: runtime where
  "example_runtime \<equiv>
     \<lparr>invalid_url_message = (\<lambda>url. ''Failed to parse URL from '' @ url),
      null_body_message = ''Cannot read properties of null''\<rparr>"

abbreviation example_itinerary :: trip_itinerary where
  "example_itinerary \<equiv>
     \<lparr>ti_destination = ''Rome'', ti_days = 2, ti_budget = ''moderate'',
      ti_itinerary = Some
        [\<lparr>id_day = 1, id_places =
            [\<lparr>ip_name = ''Colosseo'', ip_time = Morning\<rparr>,
             \<lparr>ip_name = ''Trevi'', ip_time = Afternoon\<rparr>]\<rparr>,
         \<lparr>id_day = 2, id_places =
            [\<lparr>ip_name = ''NonexistentPlaceXYZ'', ip_time = Evening\<rparr>]\<rparr>]\<rparr>"

section \<open>Properties of the place matching\<close>

lemma place_matches_iff:
  "place_matches r c \<longleftrightarrow>
     exact_match r (lower_trim (np_name c)) \<or> contains_match r (lower_trim (np_name c))
     \<or> landmark_match r (lower_trim (np_name c)) \<or> word_match r (lower_trim (np_name c))"
  by (simp add: place_matches_def Let_def)

lemma find_Some_index:
  "List.find P xs = Some x \<longleftrightarrow> (\<exists>i<length xs. xs ! i = x \<and> P x \<and> (\<forall>j<i. \<not> P (xs ! j)))"
  by (auto simp: find_Some_iff)

lemma includes_str_refl: "includes_str s s"
  by (cases s) auto

lemma lower_trim_Colosseo: "lower_trim ''Colosseo'' = ''colosseo''"
  by code_simp

lemma split_on_not_Nil: "split_on d s \<noteq> []"
  by (induction s) (auto split: list.splits)

lemma word_match_without_words:
  "significant_words r = [] \<Longrightarrow> word_match r c"
  by (simp add: word_match_def matchingWords_def ceil_half_def)

text \<open>
  Claim C1, as the code has it. The four strategies are tested for one candidate at a
  time, in the order exact, substring, alias, words, inside the predicate of one
  \<open>find\<close> over the pool. So the chosen candidate is the first one in pool order that
  matches under any of the four strategies, whichever strategy that is, and no
  candidate is chosen exactly when none matches under any strategy.
\<close>

theorem find_match_first_in_pool_order:
  "(place_matches r c \<longleftrightarrow>
      exact_match r (lower_trim (np_name c)) \<or> contains_match r (lower_trim (np_name c))
      \<or> landmark_match r (lower_trim (np_name c)) \<or> word_match r (lower_trim (np_name c)))
   \<and> (find_match pool requested = Some c \<longleftrightarrow>
        (\<exists>i<length pool. pool ! i = c \<and> place_matches (lower_trim requested) c
            \<and> (\<forall>j<i. \<not> place_matches (lower_trim requested) (pool ! j))))
   \<and> (find_match pool requested = None \<longleftrightarrow>
        (\<forall>c'\<in>set pool. \<not> place_matches (lower_trim requested) c'))"
  unfolding find_match_def
  using place_matches_iff [of r c] by (auto simp: find_Some_index find_None_iff)

theorem find_match_first_in_pool_order_witness:
  "find_match
     [\<lparr>np_id = ''7'', np_name = ''Foro Romano'', np_lat = ''41.89'', np_lon = ''12.48'',
       np_address = None, np_type = None\<rparr>,
      \<lparr>np_id = ''8'', np_name = ''Pantheon'', np_lat = ''41.90'', np_lon = ''12.47'',
       np_address = None, np_type = None\<rparr>]
     ''The Pantheon''
   = Some \<lparr>np_id = ''8'', np_name = ''Pantheon'', np_lat = ''41.90'', np_lon = ''12.47'',
            np_address = None, np_type = None\<rparr>"
proof -
  let ?a = "\<lparr>np_id = ''7'', np_name = ''Foro Romano'', np_lat = ''41.89'', np_lon = ''12.48'',
             np_address = None, np_type = None\<rparr>"
  let ?b = "\<lparr>np_id = ''8'', np_name = ''Pantheon'', np_lat = ''41.90'', np_lon = ''12.47'',
             np_address = None, np_type = None\<rparr>"
  have a: "\<not> place_matches (lower_trim ''The Pantheon'') ?a" by code_simp
  have b: "place_matches (lower_trim ''The Pantheon'') ?b" by code_simp
  have "\<exists>i<length [?a, ?b]. [?a, ?b] ! i = ?b \<and> place_matches (lower_trim ''The Pantheon'') ?b
          \<and> (\<forall>j<i. \<not> place_matches (lower_trim ''The Pantheon'') ([?a, ?b] ! j))"
    using a b by (intro exI [of _ 1]) simp
  then show ?thesis
    using find_match_first_in_pool_order
            [where pool = "[?a, ?b]" and requested = "''The Pantheon''" and c = ?b]
    by blast
qed

text \<open>
  Claim C1 as stated fails: with the pool \<open>Fontana di Trevi\<close>, \<open>Trevi\<close> and the
  reference \<open>Trevi\<close>, the second candidate matches exactly and the first one only as a
  substring, and the first one is chosen.
\<close>

theorem exact_match_not_preferred_counterexample:
  "find_match
     [\<lparr>np_id = ''1'', np_name = ''Fontana di Trevi'', np_lat = ''41.9'', np_lon = ''12.48'',
       np_address = None, np_type = None\<rparr>,
      \<lparr>np_id = ''2'', np_name = ''Trevi'', np_lat = ''41.8'', np_lon = ''12.47'',
       np_address = None, np_type = None\<rparr>]
     ''Trevi''
   = Some \<lparr>np_id = ''1'', np_name = ''Fontana di Trevi'', np_lat = ''41.9'', np_lon = ''12.48'',
            np_address = None, np_type = None\<rparr>
   \<and> \<not> exact_match (lower_trim ''Trevi'') (lower_trim ''Fontana di Trevi'')
   \<and> exact_match (lower_trim ''Trevi'') (lower_trim ''Trevi'')"
  by code_simp

text \<open>
  Claim C2 at a reference without a word longer than two characters. The claim says the
  word strategy matches no candidate then; in the code the threshold is
  \<open>Math.ceil(0 * 0.5) = 0\<close> and \<open>0 >= 0\<close> holds, so the strategy matches every
  candidate: the reference \<open>xy\<close> is matched to \<open>Pantheon\<close>, which no other strategy
  matches.
\<close>

theorem word_match_no_significant_words:
  "significant_words (lower_trim ''xy'') = []
   \<and> \<not> exact_match (lower_trim ''xy'') (lower_trim ''Pantheon'')
   \<and> \<not> contains_match (lower_trim ''xy'') (lower_trim ''Pantheon'')
   \<and> \<not> landmark_match (lower_trim ''xy'') (lower_trim ''Pantheon'')
   \<and> word_match (lower_trim ''xy'') (lower_trim ''Pantheon'')
   \<and> find_match
        [\<lparr>np_id = ''8'', np_name = ''Pantheon'', np_lat = ''41.90'', np_lon = ''12.47'',
          np_address = None, np_type = None\<rparr>] ''xy''
      = Some \<lparr>np_id = ''8'', np_name = ''Pantheon'', np_lat = ''41.90'', np_lon = ''12.47'',
               np_address = None, np_type = None\<rparr>"
  by code_simp

text \<open>
  Claim C7. A reference whose normalized text contains \<open>colosseum\<close> matches a candidate
  named \<open>Colosseo\<close> by the alias table, so the candidate passes the predicate of
  \<open>find\<close>. For the reference \<open>visit the Colosseum\<close> neither the exact nor the
  substring strategy matches, the alias strategy does, and the candidate is chosen.
\<close>

theorem colosseum_alias_match:
  "(includes_str (lower_trim requested) ''colosseum'' \<longrightarrow>
      landmark_match (lower_trim requested) (lower_trim ''Colosseo'')
      \<and> (np_name c = ''Colosseo'' \<longrightarrow> place_matches (lower_trim requested) c))
   \<and> \<not> exact_match (lower_trim ''visit the Colosseum'') (lower_trim ''Colosseo'')
   \<and> \<not> contains_match (lower_trim ''visit the Colosseum'') (lower_trim ''Colosseo'')
   \<and> landmark_match (lower_trim ''visit the Colosseum'') (lower_trim ''Colosseo'')
   \<and> find_match
        [\<lparr>np_id = ''3'', np_name = ''Colosseo'', np_lat = ''41.89'', np_lon = ''12.49'',
          np_address = None, np_type = None\<rparr>] ''visit the Colosseum''
      = Some \<lparr>np_id = ''3'', np_name = ''Colosseo'', np_lat = ''41.89'', np_lon = ''12.49'',
               np_address = None, np_type = None\<rparr>"
proof -
  have general: "landmark_match r (lower_trim ''Colosseo'')" if "includes_str r ''colosseum''" for r
    using that by (simp add: lower_trim_Colosseo landmark_match_def landmarkMappings_def)
  have "\<not> exact_match (lower_trim ''visit the Colosseum'') (lower_trim ''Colosseo'')"
    by code_simp
  moreover have "\<not> contains_match (lower_trim ''visit the Colosseum'') (lower_trim ''Colosseo'')"
    by code_simp
  moreover have "landmark_match (lower_trim ''visit the Colosseum'') (lower_trim ''Colosseo'')"
    by code_simp
  moreover have "find_match
        [\<lparr>np_id = ''3'', np_name = ''Colosseo'', np_lat = ''41.89'', np_lon = ''12.49'',
          np_address = None, np_type = None\<rparr>] ''visit the Colosseum''
      = Some \<lparr>np_id = ''3'', np_name = ''Colosseo'', np_lat = ''41.89'', np_lon = ''12.49'',
               np_address = None, np_type = None\<rparr>"
    by code_simp
  ultimately show ?thesis
    using general by (auto simp: place_matches_iff)
qed

theorem colosseum_alias_match_witness:
  "includes_str (lower_trim ''Tour of the Colosseum at night'') ''colosseum''
   \<and> landmark_match (lower_trim ''Tour of the Colosseum at night'') (lower_trim ''Colosseo'')
   \<and> place_matches (lower_trim ''Tour of the Colosseum at night'')
        \<lparr>np_id = ''3'', np_name = ''Colosseo'', np_lat = ''41.89'', np_lon = ''12.49'',
         np_address = None, np_type = None\<rparr>"
proof -
  have h: "includes_str (lower_trim ''Tour of the Colosseum at night'') ''colosseum''"
    by code_simp
  show ?thesis
    using h colosseum_alias_match
            [where requested = "''Tour of the Colosseum at night''"
               and c = "\<lparr>np_id = ''3'', np_name = ''Colosseo'', np_lat = ''41.89'',
                         np_lon = ''12.49'', np_address = None, np_type = None\<rparr>"]
    by simp
qed

section \<open>Properties of the trip-resolve route\<close>

text \<open>
  The loop over the days, taken by itself. Every place of a day gets one entry, with its
  name and its time slot, in the order of the places; every lookup adds one to
  \<open>resolvedCount\<close> or one name to \<open>unresolvedPlaces\<close>; and a lookup that finds
  nothing gives the entry the destination's coordinates and lists the name.
\<close>

lemma finish_lookup_shape:
  assumes "finish_lookup e now lat lon (place, cached) st = (ep, st1)"
  shows "ep_name ep = ip_name place \<and> ep_time ep = ip_time place
    \<and> resolvedCount st1 + length (unresolvedPlaces st1)
        = resolvedCount st + length (unresolvedPlaces st) + 1"
  using assms by (auto simp: finish_lookup_def Let_def split: prod.splits option.splits)

lemma finish_lookup_fallback:
  assumes "resolve_uncached e now (rs_cache st) (ip_name place) lat lon = (None, c)"
  shows "finish_lookup e now lat lon (place, None) st
           = (\<lparr>ep_name = ip_name place, ep_time = ip_time place, ep_lat = lat, ep_lon = lon,
               ep_place_id = None, ep_address = None, ep_type = None\<rparr>,
              st\<lparr>rs_cache := c, unresolvedPlaces := unresolvedPlaces st @ [ip_name place]\<rparr>)"
  using assms by (simp add: finish_lookup_def)

lemma start_lookups_places:
  "start_lookups now lat lon ps c = (pending, c') \<Longrightarrow> map fst pending = ps"
  by (induction ps arbitrary: c pending c') (auto split: prod.splits)

lemma finish_lookups_frame:
  "finish_lookups e now lat lon pending st = (out, st') \<Longrightarrow>
     list_all2 (\<lambda>lookup ep. ep_name ep = ip_name (fst lookup) \<and> ep_time ep = ip_time (fst lookup))
       pending out"
proof (induction pending arbitrary: st out st')
  case Nil
  then show ?case by simp
next
  case (Cons lookup rest)
  obtain place cached where lookup: "lookup = (place, cached)" by (cases lookup)
  obtain ep st1 where step: "finish_lookup e now lat lon (place, cached) st = (ep, st1)"
    by (cases "finish_lookup e now lat lon (place, cached) st")
  obtain eps st2 where tail: "finish_lookups e now lat lon rest st1 = (eps, st2)"
    by (cases "finish_lookups e now lat lon rest st1")
  from Cons.prems step tail lookup have out: "out = ep # eps" by simp
  from finish_lookup_shape [OF step] Cons.IH [OF tail] out lookup show ?case by simp
qed

lemma finish_lookups_count:
  "finish_lookups e now lat lon pending st = (out, st') \<Longrightarrow>
     resolvedCount st' + length (unresolvedPlaces st')
       = resolvedCount st + length (unresolvedPlaces st) + length pending"
proof (induction pending arbitrary: st out st')
  case Nil
  then show ?case by simp
next
  case (Cons lookup rest)
  obtain place cached where lookup: "lookup = (place, cached)" by (cases lookup)
  obtain ep st1 where step: "finish_lookup e now lat lon (place, cached) st = (ep, st1)"
    by (cases "finish_lookup e now lat lon (place, cached) st")
  obtain eps st2 where tail: "finish_lookups e now lat lon rest st1 = (eps, st2)"
    by (cases "finish_lookups e now lat lon rest st1")
  from Cons.prems step tail lookup have st': "st' = st2" by simp
  from finish_lookup_shape [OF step] Cons.IH [OF tail] st' show ?case by simp
qed

lemma resolve_places_run:
  obtains pending cache1 where
    "start_lookups now lat lon ps (rs_cache st) = (pending, cache1)"
    "resolve_places e now lat lon ps st
       = finish_lookups e now lat lon pending (st\<lparr>rs_cache := cache1\<rparr>)"
    "map fst pending = ps"
proof -
  obtain pending cache1 where s: "start_lookups now lat lon ps (rs_cache st) = (pending, cache1)"
    by (cases "start_lookups now lat lon ps (rs_cache st)")
  then have r: "resolve_places e now lat lon ps st
       = finish_lookups e now lat lon pending (st\<lparr>rs_cache := cache1\<rparr>)"
    by (simp add: resolve_places_def)
  show thesis by (rule that [OF s r start_lookups_places [OF s]])
qed

lemma resolve_places_frame:
  assumes "resolve_places e now lat lon ps st = (out, st')"
  shows "list_all2 (\<lambda>place ep. ep_name ep = ip_name place \<and> ep_time ep = ip_time place) ps out"
proof -
  obtain pending cache1 where
    run: "resolve_places e now lat lon ps st
            = finish_lookups e now lat lon pending (st\<lparr>rs_cache := cache1\<rparr>)"
    and ps: "map fst pending = ps"
    by (rule resolve_places_run)
  from assms run have "finish_lookups e now lat lon pending (st\<lparr>rs_cache := cache1\<rparr>) = (out, st')"
    by simp
  from finish_lookups_frame [OF this] show ?thesis
    unfolding ps [symmetric] by (simp add: list_all2_map1)
qed

lemma resolve_places_count:
  assumes "resolve_places e now lat lon ps st = (out, st')"
  shows "resolvedCount st' + length (unresolvedPlaces st')
           = resolvedCount st + length (unresolvedPlaces st) + length ps"
proof -
  obtain pending cache1 where
    run: "resolve_places e now lat lon ps st
            = finish_lookups e now lat lon pending (st\<lparr>rs_cache := cache1\<rparr>)"
    and ps: "map fst pending = ps"
    by (rule resolve_places_run)
  from assms run have "finish_lookups e now lat lon pending (st\<lparr>rs_cache := cache1\<rparr>) = (out, st')"
    by simp
  from finish_lookups_count [OF this] ps show ?thesis by auto
qed

lemma resolve_days_count:
  "resolve_days e now lat lon days st = (out, st') \<Longrightarrow>
     resolvedCount st' + length (unresolvedPlaces st')
       = resolvedCount st + length (unresolvedPlaces st)
         + (\<Sum>day\<leftarrow>days. length (id_places day))"
proof (induction days arbitrary: st out st')
  case Nil
  then show ?case by simp
next
  case (Cons day rest)
  obtain eps st1 where step: "resolve_places e now lat lon (id_places day) st = (eps, st1)"
    by (cases "resolve_places e now lat lon (id_places day) st")
  obtain eds st2 where tail: "resolve_days e now lat lon rest st1 = (eds, st2)"
    by (cases "resolve_days e now lat lon rest st1")
  from Cons.prems step tail have st': "st' = st2" by simp
  from resolve_places_count [OF step] Cons.IH [OF tail] st' show ?case by simp
qed

lemma totalPlaces_sum: "totalPlaces days = (\<Sum>day\<leftarrow>days. length (id_places day))"
proof -
  have "foldl (\<lambda>count day. count + length (id_places day)) a days
          = a + (\<Sum>day\<leftarrow>days. length (id_places day))" for a
    by (induction days arbitrary: a) simp_all
  then show ?thesis by (simp add: totalPlaces_def)
qed

lemma resolve_days_frame:
  "resolve_days e now lat lon days st = (out, st') \<Longrightarrow>
     list_all2 (\<lambda>day eday. ed_day eday = id_day day
        \<and> list_all2 (\<lambda>place ep. ep_name ep = ip_name place \<and> ep_time ep = ip_time place)
             (id_places day) (ed_places eday)) days out"
proof (induction days arbitrary: st out st')
  case Nil
  then show ?case by simp
next
  case (Cons day rest)
  obtain eps st1 where step: "resolve_places e now lat lon (id_places day) st = (eps, st1)"
    by (cases "resolve_places e now lat lon (id_places day) st")
  obtain eds st2 where tail: "resolve_days e now lat lon rest st1 = (eds, st2)"
    by (cases "resolve_days e now lat lon rest st1")
  from Cons.prems step tail have out: "out = \<lparr>ed_day = id_day day, ed_places = eps\<rparr> # eds" by simp
  from resolve_places_frame [OF step] Cons.IH [OF tail] out show ?case by simp
qed

text \<open>
  The handler does not reach the loop. For an itinerary with a destination and an array
  of days, the fetch of the destination is given a URL without a base and throws, so the
  response is the 500 of the outer \<open>catch\<close>, whatever the message of the runtime; no
  body of any kind is answered with an enriched itinerary.
\<close>

lemma resolve_caught_500: "\<exists>message details. resolve_caught err = ResolveError 500 message details"
  by (simp add: resolve_caught_def)

lemma POST_resolve_fetch_throws:
  assumes "ti_itinerary it = Some days" and "ti_destination it \<noteq> []"
  shows "POST_resolve rt e startTime now cache (Itinerary it)
           = (resolve_caught
                \<lparr>err_name = ''TypeError'',
                 err_message = invalid_url_message rt
                   (''/api/places/autocomplete?q='' @ encodeURIComponent (ti_destination it))\<rparr>,
              cache)"
  using assms by (simp add: POST_resolve_def fetch_without_base_def)

lemma POST_resolve_never_ok:
  "fst (POST_resolve rt e startTime now cache body) \<noteq> ResolveOk out"
proof (cases body)
  case InvalidJsonBody
  then show ?thesis by (simp add: POST_resolve_def)
next
  case NullItinerary
  then show ?thesis by (simp add: POST_resolve_def resolve_caught_def)
next
  case (Itinerary it)
  then show ?thesis
    by (simp add: POST_resolve_def fetch_without_base_def resolve_caught_def split: option.splits)
qed

text \<open>
  Claim C4 at an itinerary whose one place has no candidate. The claim says the place
  is in the output with the destination's coordinates and is listed in
  \<open>unresolved_places\<close>; the response is the 500 error, with no enriched itinerary.
\<close>

theorem resolve_answers_500_without_fallback:
  "fst (POST_resolve example_runtime example_env 1000 1040 Map.empty
          (Itinerary
             \<lparr>ti_destination = ''Rome'', ti_days = 1, ti_budget = ''low'',
              ti_itinerary = Some
                [\<lparr>id_day = 1, id_places =
                    [\<lparr>ip_name = ''NonexistentPlaceXYZ'', ip_time = Evening\<rparr>]\<rparr>]\<rparr>))
     = ResolveError 500 ''Failed to parse URL from /api/places/autocomplete?q=Rome'' None"
  by code_simp

text \<open>
  Claim C8 at the itinerary of the example, which has three places. The claim says the
  response carries a \<open>resolution_info\<close> whose counts add up to three; the response
  is the 500 error, with no \<open>resolution_info\<close>.
\<close>

theorem resolve_answers_500_without_counts:
  "fst (POST_resolve example_runtime example_env 1000 1040 Map.empty (Itinerary example_itinerary))
     = ResolveError 500 ''Failed to parse URL from /api/places/autocomplete?q=Rome'' None
   \<and> map_option totalPlaces (ti_itinerary example_itinerary) = Some 3"
  by code_simp

text \<open>
  Claim C9 at a valid itinerary of two days. The claim says the output has the same two
  days with the same places; the response is the 500 error, with no days.
\<close>

theorem resolve_answers_500_without_days:
  "fst (POST_resolve example_runtime example_env 1000 1040 Map.empty
          (Itinerary
             \<lparr>ti_destination = ''Paris'', ti_days = 2, ti_budget = ''luxury'',
              ti_itinerary = Some
                [\<lparr>id_day = 1, id_places = [\<lparr>ip_name = ''Louvre'', ip_time = Morning\<rparr>]\<rparr>,
                 \<lparr>id_day = 2, id_places = [\<lparr>ip_name = ''Tour Eiffel'', ip_time = Evening\<rparr>]\<rparr>]\<rparr>))
     = ResolveError 500 ''Failed to parse URL from /api/places/autocomplete?q=Paris'' None"
  by code_simp

section \<open>Properties of the caches\<close>

text \<open>
  Claim C5. A read of a key right after the store of a value under it (at the same time,
  or at any later time less than the time-to-live after the store) gives the stored
  value. A read at least the time-to-live after the store gives nothing, as the read of
  a key that has no entry does; the trip-resolve read deletes the stale entry, the
  trip-init read leaves it, and in both a store that follows overwrites it, so that the
  next read gives the new value. Expiry happens in the read only: a store and a read
  leave the entries of the other keys as they are, whatever their age.
\<close>

theorem cache_put_then_get:
  "coordinate_cache_read (cache_set c key d now) key now = (Some d, cache_set c key d now)
   \<and> validation_cache_read (cache_set c key d now) key now = Some d
   \<and> (later - now < CACHE_DURATION_resolve \<longrightarrow>
        fst (coordinate_cache_read (cache_set c key d now) key later) = Some d)
   \<and> (later - now < CACHE_DURATION_init \<longrightarrow>
        validation_cache_read (cache_set c key d now) key later = Some d)
   \<and> (later - now \<ge> CACHE_DURATION_resolve \<longrightarrow>
        coordinate_cache_read (cache_set c key d now) key later = (None, c(key := None))
        \<and> coordinate_cache_read (c(key := None)) key later = (None, c(key := None))
        \<and> fst (coordinate_cache_read
                  (cache_set (snd (coordinate_cache_read (cache_set c key d now) key later))
                     key d' later) key later) = Some d')
   \<and> (later - now \<ge> CACHE_DURATION_init \<longrightarrow>
        validation_cache_read (cache_set c key d now) key later = None
        \<and> validation_cache_read (c(key := None)) key later = None
        \<and> validation_cache_read (cache_set (cache_set c key d now) key d' later) key later = Some d')
   \<and> (key' \<noteq> key \<longrightarrow>
        cache_set c key d now key' = c key'
        \<and> snd (coordinate_cache_read c key later) key' = c key')"
  by (auto simp: coordinate_cache_read_def validation_cache_read_def cache_set_def
        CACHE_DURATION_resolve_def CACHE_DURATION_init_def split: option.splits)

theorem cache_put_then_get_witness:
  "fst (coordinate_cache_read (cache_set Map.empty ''trevi_41.9_12.5'' (7::nat) 1000)
          ''trevi_41.9_12.5'' 1500) = Some 7
   \<and> coordinate_cache_read (cache_set Map.empty ''trevi_41.9_12.5'' (7::nat) 1000)
          ''trevi_41.9_12.5'' 1900000 = (None, Map.empty)
   \<and> validation_cache_read (cache_set Map.empty ''dest_rome'' (7::nat) 1000) ''dest_rome'' 700000
       = None"
proof -
  have a: "(1500::int) - 1000 < CACHE_DURATION_resolve"
    and b: "(1900000::int) - 1000 \<ge> CACHE_DURATION_resolve"
    and c: "(700000::int) - 1000 \<ge> CACHE_DURATION_init"
    by (simp_all add: CACHE_DURATION_resolve_def CACHE_DURATION_init_def)
  from a cache_put_then_get [of Map.empty "''trevi_41.9_12.5''" "7::nat" 1000 1500]
  have "fst (coordinate_cache_read (cache_set Map.empty ''trevi_41.9_12.5'' (7::nat) 1000)
          ''trevi_41.9_12.5'' 1500) = Some 7" by blast
  moreover from b cache_put_then_get [of Map.empty "''trevi_41.9_12.5''" "7::nat" 1000 1900000]
  have "coordinate_cache_read (cache_set Map.empty ''trevi_41.9_12.5'' (7::nat) 1000)
          ''trevi_41.9_12.5'' 1900000 = (None, Map.empty)" by simp
  moreover from c cache_put_then_get [of Map.empty "''dest_rome''" "7::nat" 1000 700000]
  have "validation_cache_read (cache_set Map.empty ''dest_rome'' (7::nat) 1000) ''dest_rome'' 700000
       = None" by blast
  ultimately show ?thesis by blast
qed

section \<open>Properties of the trip-create route\<close>







section \<open>Properties of the trip-init route\<close>

text \<open>
  A body that passes the validation has a string, an array of strings, a number and a
  string in its four fields, so the last case of \<open>POST_init\<close> is never taken.
\<close>

lemma all_strings:
  "\<not> list_ex (\<lambda>place. case place of JStr p \<Rightarrow> length (trim p) = 0 | _ \<Rightarrow> True) xs
     \<Longrightarrow> map JStr (map str_of xs) = xs"
  by (induction xs) (auto simp: str_of_def split: jsval.splits)

lemma validated_fields:
  assumes "validate_init destination places days budget = []"
  shows "\<exists>d ps n b. destination = JStr d \<and> places = JArr (map JStr ps)
           \<and> days = JNum n \<and> budget = JStr b"
proof -
  from assms obtain d where d: "destination = JStr d"
    by (cases destination) (auto simp: validate_init_def)
  from assms obtain xs where xs: "places = JArr xs"
    and str: "\<not> list_ex (\<lambda>place. case place of JStr p \<Rightarrow> length (trim p) = 0 | _ \<Rightarrow> True) xs"
    by (cases places) (auto simp: validate_init_def split: if_splits)
  from assms obtain n where n: "days = JNum n"
    by (cases days) (auto simp: validate_init_def split: if_splits)
  from assms obtain b where b: "budget = JStr b"
    by (cases budget) (auto simp: validate_init_def split: if_splits)
  from all_strings [OF str] xs have "places = JArr (map JStr (map str_of xs))" by simp
  with d n b show ?thesis by blast
qed









text \<open>
  What the validation turns away: a destination that is not a string
  with a character other than white space, places that are not a non-empty array, days
  that are not a number or are at most 0 or more than 30, and a budget that is not one
  of the three tiers are each answered with status 400, the error
  \<open>Validation failed\<close> and the non-empty list of messages, with no fetch made.
\<close>

lemma init_validation_rejects:
  assumes "(case destination of JStr d \<Rightarrow> trim d = [] | _ \<Rightarrow> True)
           \<or> (case places of JArr ps \<Rightarrow> ps = [] | _ \<Rightarrow> True)
           \<or> (case days of JNum n \<Rightarrow> n \<le> 0 \<or> n > 30 | _ \<Rightarrow> True)
           \<or> (case budget of JStr b \<Rightarrow> b \<notin> set VALID_BUDGETS | _ \<Rightarrow> True)"
  shows "validate_init destination places days budget \<noteq> []
         \<and> POST_init e now cache (Fields destination places days budget)
             = (ErrorResponse 400 ''Validation failed''
                  (Some (validate_init destination places days budget)), cache, [])"
proof -
  have ne: "validate_init destination places days budget \<noteq> []"
    using assms
    by (auto simp: validate_init_def split: jsval.splits if_splits)
  then have "length (validate_init destination places days budget) > 0" by simp
  then show ?thesis
    using ne by (simp add: POST_init_def Let_def)
qed

text \<open>
  Claim C6 at a day count of one half. The request names a destination, one place, the
  budget \<open>moderate\<close> and \<open>days = 0.5\<close>, which is outside 1 to 30; the test
  \<open>days <= 0 || days > 30\<close> lets it pass, autocomplete and the nearby search
  are fetched, and the response is the 200 body with \<open>days = Math.floor(0.5) = 0\<close>.
\<close>

theorem init_accepts_half_a_day:
  "fst (POST_init example_env 1000 \<lparr>dest_entries = Map.empty, places_entries = Map.empty\<rparr>
          (Fields (JStr ''Rome'') (JArr [JStr ''Colosseum'']) (JNum (1 / 2)) (JStr ''moderate'')))
     = InitOk
         \<lparr>is_destination = \<lparr>vd_name = ''Rome'', vd_place_id = ''r1'', vd_lat = Some ''41.9'',
                              vd_lon = Some ''12.5''\<rparr>,
          is_places = [\<lparr>vp_name = ''Colosseo'', vp_id = ''3'', vp_lat = ''41.89'', vp_lon = ''12.49''\<rparr>],
          is_days = 0, is_budget = ''moderate'',
          is_validation_info = \<lparr>total_places_requested = 1, valid_places_found = 1,
                                 invalid_places = None, warnings = None\<rparr>\<rparr>
   \<and> snd (snd (POST_init example_env 1000 \<lparr>dest_entries = Map.empty, places_entries = Map.empty\<rparr>
          (Fields (JStr ''Rome'') (JArr [JStr ''Colosseum'']) (JNum (1 / 2)) (JStr ''moderate''))))
     = [AutocompleteCall ''Rome'', NearbyCall ''41.9'' ''12.5'' ''10000'']"
  by code_simp

end
